theory Spec2Isabelle
  imports Complex_Main "HOL-Library.Word" "HOL-Library.Sublist"
begin

section \<open>Values of the client library\<close>

text \<open>
  The program is a script over the Solana client library: it generates key pairs, asks a
  JSON RPC node for data, builds stake-program transactions and sends them. The library
  and the network are not part of the repository. They are modelled by a record of
  operations over an arbitrary world state \<open>'w\<close>; every operation that can reject returns
  \<open>error + value\<close>. Everything the repository's own code does (the order of the calls, the
  arguments it passes, what it does with the results, what it logs, what it returns) is
  translated statement by statement.

  JavaScript numbers that hold lamport amounts are modelled as \<open>real\<close>: the arithmetic of
  the source (\<open>+\<close>, \<open>*\<close>, \<open>/\<close>) is the exact one, without the rounding of doubles.
\<close>

type_synonym byte = "8 word"

text \<open>A \<open>PublicKey\<close> is held as its 32-byte big-endian form (what \<open>toBytes()\<close> returns).\<close>

type_synonym pubkey = "byte list"

datatype error = TypeError string | Error string | RpcError string

record Keypair =
  publicKey :: pubkey
  secretKey :: "byte list"

record Connection =
  rpcEndpoint :: string
  commitment :: string

record Authorized =
  staker :: pubkey
  withdrawer :: pubkey

record Lockup =
  unixTimestamp :: real
  epoch :: real
  custodian :: pubkey

text \<open>
  The four builders of \<open>StakeProgram\<close> are pure: the transaction they return is modelled
  by the builder's name and the fields of the parameter object it was given.
\<close>

datatype transaction =
    StakeProgram_createAccount (authorized: Authorized) (fromPubkey: pubkey)
      (lamports: real) (lockup: Lockup) (stakePubkey: pubkey)
  | StakeProgram_delegate (stakePubkey: pubkey) (authorizedPubkey: pubkey) pubkey
  | StakeProgram_deactivate (stakePubkey: pubkey) (authorizedPubkey: pubkey)
  | StakeProgram_withdraw (stakePubkey: pubkey) (authorizedPubkey: pubkey)
      (toPubkey: pubkey) (lamports: real)

record BlockhashWithExpiryBlockHeight =
  blockhash :: string
  lastValidBlockHeight :: real

record BlockheightBasedTransactionConfirmationStrategy = BlockhashWithExpiryBlockHeight +
  signature :: string

record StakeActivationData =
  state :: string
  active :: real
  inactive :: real

record VoteAccountInfo =
  votePubkey :: string
  nodePubkey :: string
  activatedStake :: real

record VoteAccountStatus =
  current :: "VoteAccountInfo list"
  delinquent :: "VoteAccountInfo list"

record AccountInfo =
  data :: "byte list"
  executable :: bool
  accountLamports :: real
  owner :: pubkey

record ProgramAccount =
  pubkey :: pubkey
  account :: AccountInfo

datatype GetProgramAccountsFilter = dataSize nat | memcmp nat "byte list"

definition LAMPORTS_PER_SOL :: real where
  "LAMPORTS_PER_SOL = 1000000000"

definition StakeProgram_space :: real where
  "StakeProgram_space = 200"

definition PUBLIC_KEY_LENGTH :: nat where
  "PUBLIC_KEY_LENGTH = 32"

section \<open>Traces\<close>

text \<open>
  A run is observed through the calls it makes into the library, in order, each with the
  outcome the program received; through the transactions it builds; and through the lines
  it writes to the console.
\<close>

datatype call =
    Keypair_generate
  | Connection_requestAirdrop pubkey real
  | Connection_getLatestBlockhash
  | Connection_confirmTransaction BlockheightBasedTransactionConfirmationStrategy
  | Connection_getMinimumBalanceForRentExemption real
  | Connection_getBalance pubkey
  | Connection_getStakeActivation pubkey
  | Connection_getVoteAccounts
  | Connection_getProgramAccounts pubkey "GetProgramAccountsFilter list"
  | sendAndConfirmTransaction transaction "Keypair list"

datatype reply =
    R_Keypair Keypair
  | R_String string
  | R_Number real
  | R_Blockhash BlockhashWithExpiryBlockHeight
  | R_SignatureResult "string option"
  | R_StakeActivation StakeActivationData
  | R_VoteAccounts VoteAccountStatus
  | R_Accounts "ProgramAccount list"

datatype log_line =
    Log_validators nat
  | Log_current_validators nat
  | Log_stake_account_created string
  | Log_account_balance real
  | Log_stake_account_status string
  | Log_delegated pubkey string
  | Log_deactivated string
  | Log_withdrawn string
  | Log_total_delegators pubkey nat
  | Log_sample_delegator ProgramAccount

datatype event =
    Call call "error + reply"
  | Built transaction
  | ConsoleLog log_line
  | ConsoleError "string option" error
  | Unawaited "event list"

section \<open>Asynchronous code as a state, trace and error monad\<close>

type_synonym ('w, 'a) task = "'w \<Rightarrow> (error + 'a) \<times> event list \<times> 'w"

definition resolve :: "'a \<Rightarrow> ('w, 'a) task" where
  "resolve a = (\<lambda>w. (Inr a, [], w))"

definition reject :: "error \<Rightarrow> ('w, 'a) task" where
  "reject e = (\<lambda>w. (Inl e, [], w))"

definition of_result :: "error + 'a \<Rightarrow> ('w, 'a) task" where
  "of_result r = (\<lambda>w. (r, [], w))"

text \<open>
  \<open>andThen m f\<close> is \<open>const x = await m; f x\<close>: when \<open>m\<close> rejects, the rest does not
  run and the rejection is the result.
\<close>

definition andThen :: "('w, 'a) task \<Rightarrow> ('a \<Rightarrow> ('w, 'b) task) \<Rightarrow> ('w, 'b) task" where
  "andThen m f = (\<lambda>w. case m w of
      (Inl e, t, w') \<Rightarrow> (Inl e, t, w')
    | (Inr a, t, w') \<Rightarrow> (case f a w' of (r, t', w'') \<Rightarrow> (r, t @ t', w'')))"

text \<open>\<open>try { await m } catch (err) { h err }\<close>\<close>

definition tryCatch :: "('w, unit) task \<Rightarrow> (error \<Rightarrow> ('w, unit) task) \<Rightarrow> ('w, unit) task" where
  "tryCatch m h = (\<lambda>w. case m w of
      (Inr a, t, w') \<Rightarrow> (Inr a, t, w')
    | (Inl e, t, w') \<Rightarrow> (case h e w' of (r, t', w'') \<Rightarrow> (r, t @ t', w'')))"

text \<open>
  A call of an async function whose promise is dropped (no \<open>await\<close>): the caller goes on
  at once and never sees the outcome. The events of the dropped task are kept together in
  one \<open>Unawaited\<close> event: its request leaves where the task is started, its answer and what
  it logs come at some later time that nothing in the program fixes. What the runtime does
  with a dropped promise that rejects is outside the model.
\<close>

definition unawaited :: "('w, 'a) task \<Rightarrow> ('w, unit) task" where
  "unawaited m = (\<lambda>w. case m w of (r, t, w') \<Rightarrow> (Inr (), [Unawaited t], w'))"

definition invoke ::
  "call \<Rightarrow> ('r \<Rightarrow> reply) \<Rightarrow> ('w \<Rightarrow> (error + 'r) \<times> 'w) \<Rightarrow> ('w, 'r) task" where
  "invoke c wrap f = (\<lambda>w. case f w of (r, w') \<Rightarrow> (r, [Call c (map_sum id wrap r)], w'))"

definition built :: "transaction \<Rightarrow> ('w, transaction) task" where
  "built tx = (\<lambda>w. (Inr tx, [Built tx], w))"

definition console_log :: "log_line \<Rightarrow> ('w, unit) task" where
  "console_log l = (\<lambda>w. (Inr (), [ConsoleLog l], w))"

definition console_error :: "string option \<Rightarrow> error \<Rightarrow> ('w, unit) task" where
  "console_error p e = (\<lambda>w. (Inr (), [ConsoleError p e], w))"

section \<open>The library and the network\<close>

record 'w web3 =
  lib_Keypair_generate :: "'w \<Rightarrow> Keypair \<times> 'w"
  lib_sendAndConfirmTransaction ::
    "Connection \<Rightarrow> transaction \<Rightarrow> Keypair list \<Rightarrow> 'w \<Rightarrow> (error + string) \<times> 'w"
  rpc_requestAirdrop :: "Connection \<Rightarrow> pubkey \<Rightarrow> real \<Rightarrow> 'w \<Rightarrow> (error + string) \<times> 'w"
  rpc_getLatestBlockhash ::
    "Connection \<Rightarrow> 'w \<Rightarrow> (error + BlockhashWithExpiryBlockHeight) \<times> 'w"
  rpc_confirmTransaction ::
    "Connection \<Rightarrow> BlockheightBasedTransactionConfirmationStrategy \<Rightarrow> 'w
      \<Rightarrow> (error + string option) \<times> 'w"
  rpc_getMinimumBalanceForRentExemption ::
    "Connection \<Rightarrow> real \<Rightarrow> 'w \<Rightarrow> (error + real) \<times> 'w"
  rpc_getBalance :: "Connection \<Rightarrow> pubkey \<Rightarrow> 'w \<Rightarrow> (error + real) \<times> 'w"
  rpc_getStakeActivation ::
    "Connection \<Rightarrow> pubkey \<Rightarrow> 'w \<Rightarrow> (error + StakeActivationData) \<times> 'w"
  rpc_getVoteAccounts :: "Connection \<Rightarrow> 'w \<Rightarrow> (error + VoteAccountStatus) \<times> 'w"
  rpc_programAccounts :: "Connection \<Rightarrow> pubkey \<Rightarrow> 'w \<Rightarrow> (error + ProgramAccount list) \<times> 'w"

definition Keypair_generate_task :: "'w web3 \<Rightarrow> ('w, Keypair) task" where
  "Keypair_generate_task lib =
     invoke Keypair_generate R_Keypair
       (\<lambda>w. case lib_Keypair_generate lib w of (k, w') \<Rightarrow> (Inr k, w'))"

definition send_and_confirm ::
  "'w web3 \<Rightarrow> Connection \<Rightarrow> transaction \<Rightarrow> Keypair list \<Rightarrow> ('w, string) task" where
  "send_and_confirm lib c tx signers =
     invoke (sendAndConfirmTransaction tx signers) R_String
       (lib_sendAndConfirmTransaction lib c tx signers)"

definition conn_requestAirdrop ::
  "'w web3 \<Rightarrow> Connection \<Rightarrow> pubkey \<Rightarrow> real \<Rightarrow> ('w, string) task" where
  "conn_requestAirdrop lib c k n =
     invoke (Connection_requestAirdrop k n) R_String (rpc_requestAirdrop lib c k n)"

definition conn_getLatestBlockhash ::
  "'w web3 \<Rightarrow> Connection \<Rightarrow> ('w, BlockhashWithExpiryBlockHeight) task" where
  "conn_getLatestBlockhash lib c =
     invoke Connection_getLatestBlockhash R_Blockhash (rpc_getLatestBlockhash lib c)"

definition conn_confirmTransaction ::
  "'w web3 \<Rightarrow> Connection \<Rightarrow> BlockheightBasedTransactionConfirmationStrategy
    \<Rightarrow> ('w, string option) task" where
  "conn_confirmTransaction lib c s =
     invoke (Connection_confirmTransaction s) R_SignatureResult (rpc_confirmTransaction lib c s)"

definition conn_getMinimumBalanceForRentExemption ::
  "'w web3 \<Rightarrow> Connection \<Rightarrow> real \<Rightarrow> ('w, real) task" where
  "conn_getMinimumBalanceForRentExemption lib c n =
     invoke (Connection_getMinimumBalanceForRentExemption n) R_Number
       (rpc_getMinimumBalanceForRentExemption lib c n)"

definition conn_getBalance :: "'w web3 \<Rightarrow> Connection \<Rightarrow> pubkey \<Rightarrow> ('w, real) task" where
  "conn_getBalance lib c k = invoke (Connection_getBalance k) R_Number (rpc_getBalance lib c k)"

definition conn_getStakeActivation ::
  "'w web3 \<Rightarrow> Connection \<Rightarrow> pubkey \<Rightarrow> ('w, StakeActivationData) task" where
  "conn_getStakeActivation lib c k =
     invoke (Connection_getStakeActivation k) R_StakeActivation (rpc_getStakeActivation lib c k)"

definition conn_getVoteAccounts :: "'w web3 \<Rightarrow> Connection \<Rightarrow> ('w, VoteAccountStatus) task" where
  "conn_getVoteAccounts lib c =
     invoke Connection_getVoteAccounts R_VoteAccounts (rpc_getVoteAccounts lib c)"

text \<open>
  The RPC method \<open>getProgramAccounts\<close> applies its filters on the node: \<open>dataSize n\<close>
  keeps an account whose data has exactly \<open>n\<close> bytes, \<open>memcmp\<close> keeps an account whose
  data holds the given bytes at the given offset; an account is returned when it passes
  every filter. The accounts the node holds for the program are the world's. A key given
  as the bytes of a \<open>memcmp\<close> filter travels as its base-58 string and is decoded by the
  node to the same 32 bytes; the model hands the bytes over.
\<close>

fun filter_matches :: "byte list \<Rightarrow> GetProgramAccountsFilter \<Rightarrow> bool" where
  "filter_matches d (dataSize n) = (length d = n)"
| "filter_matches d (memcmp off bs) =
     (off \<le> length d \<and> length bs \<le> length d - off \<and> take (length bs) (drop off d) = bs)"

definition conn_getProgramAccounts ::
  "'w web3 \<Rightarrow> Connection \<Rightarrow> pubkey \<Rightarrow> GetProgramAccountsFilter list
    \<Rightarrow> ('w, ProgramAccount list) task" where
  "conn_getProgramAccounts lib c programId filters =
     invoke (Connection_getProgramAccounts programId filters) R_Accounts
       (\<lambda>w. case rpc_programAccounts lib c programId w of
          (r, w') \<Rightarrow>
            (map_sum id (filter (\<lambda>a. list_all (filter_matches (data (account a))) filters)) r,
             w'))"

section \<open>Public keys from strings\<close>

text \<open>
  \<open>new PublicKey(value)\<close> of the library first reads \<open>value._bn\<close>: of \<open>undefined\<close> this
  raises a \<open>TypeError\<close>, and an object that already carries a key is copied. A string is
  decoded as base 58 (\<open>bs58.decode\<close>, which throws on a character outside the alphabet:
  each leading \<open>1\<close> is a zero byte, the rest is a number written big-endian) and must give
  exactly 32 bytes. Other kinds of value do not occur in the repository.
\<close>

definition ALPHABET :: string where
  "ALPHABET = ''123456789ABCDEFGHJKLMNPQRSTUVWXYZabcdefghijkmnopqrstuvwxyz''"

fun index_of :: "char \<Rightarrow> string \<Rightarrow> nat option" where
  "index_of c [] = None"
| "index_of c (x # xs) =
     (if c = x then Some 0 else (case index_of c xs of None \<Rightarrow> None | Some i \<Rightarrow> Some (Suc i)))"

fun base58_digits :: "string \<Rightarrow> nat list option" where
  "base58_digits [] = Some []"
| "base58_digits (c # cs) =
     (case index_of c ALPHABET of
        None \<Rightarrow> None
      | Some d \<Rightarrow> (case base58_digits cs of None \<Rightarrow> None | Some ds \<Rightarrow> Some (d # ds)))"

fun bytes_be :: "nat \<Rightarrow> byte list" where
  "bytes_be n = (if n = 0 then [] else bytes_be (n div 256) @ [of_nat (n mod 256)])"

declare bytes_be.simps [simp del]

definition bs58_decode :: "string \<Rightarrow> error + byte list" where
  "bs58_decode s =
     (case base58_digits s of
        None \<Rightarrow> Inl (Error ''Non-base58 character'')
      | Some ds \<Rightarrow>
          Inr (replicate (length (takeWhile (\<lambda>d. d = 0) ds)) 0
               @ bytes_be (foldl (\<lambda>acc d. acc * 58 + d) 0 ds)))"

datatype PublicKeyInitData = Undefined | String string | PublicKeyData pubkey

definition PublicKey_new :: "PublicKeyInitData \<Rightarrow> error + pubkey" where
  "PublicKey_new v =
     (case v of
        PublicKeyData k \<Rightarrow> Inr k
      | Undefined \<Rightarrow> Inl (TypeError ''Cannot read properties of undefined (reading _bn)'')
      | String s \<Rightarrow>
          (case bs58_decode s of
             Inl e \<Rightarrow> Inl e
           | Inr decoded \<Rightarrow>
               if length decoded \<noteq> PUBLIC_KEY_LENGTH then Inl (Error ''Invalid public key input'')
               else Inr decoded))"

section \<open>The helper functions\<close>

text \<open>The functions of \<open>utils.js\<close>.\<close>

definition clusterApiUrl :: "string \<Rightarrow> error + string" where
  "clusterApiUrl cluster =
     (if cluster = ''devnet'' then Inr ''https://api.devnet.solana.com''
      else if cluster = ''testnet'' then Inr ''https://api.testnet.solana.com''
      else if cluster = ''mainnet-beta'' then Inr ''https://api.mainnet-beta.solana.com/''
      else Inl (Error ''Unknown https cluster''))"

text \<open>A parameter left out in the call (\<open>None\<close>) takes its default.\<close>

definition establishConnection :: "string option \<Rightarrow> string option \<Rightarrow> error + Connection" where
  "establishConnection cluster_arg commitment_arg =
     (let cluster = (case cluster_arg of None \<Rightarrow> ''devnet'' | Some c \<Rightarrow> c);
          commitment_level = (case commitment_arg of None \<Rightarrow> ''processed'' | Some c \<Rightarrow> c)
      in case clusterApiUrl cluster of
           Inl e \<Rightarrow> Inl e
         | Inr url \<Rightarrow> Inr \<lparr>rpcEndpoint = url, commitment = commitment_level\<rparr>)"

definition createWallet :: "'w web3 \<Rightarrow> ('w, Keypair) task" where
  "createWallet lib = Keypair_generate_task lib"

definition requestAirdrop ::
  "'w web3 \<Rightarrow> Connection \<Rightarrow> pubkey \<Rightarrow> real option \<Rightarrow> ('w, string) task" where
  "requestAirdrop lib connection walletPublicKey amount =
     conn_requestAirdrop lib connection walletPublicKey
       ((case amount of None \<Rightarrow> 1 | Some a \<Rightarrow> a) * LAMPORTS_PER_SOL)"

definition getBalance :: "'w web3 \<Rightarrow> Connection \<Rightarrow> pubkey \<Rightarrow> ('w, unit) task" where
  "getBalance lib connection k =
     andThen (conn_getBalance lib connection k) (\<lambda>stakeBalance.
     console_log (Log_account_balance (stakeBalance / LAMPORTS_PER_SOL)))"

definition getStakeAccountStatus :: "'w web3 \<Rightarrow> Connection \<Rightarrow> pubkey \<Rightarrow> ('w, unit) task" where
  "getStakeAccountStatus lib connection stakeAccountPublicKey =
     andThen (conn_getStakeActivation lib connection stakeAccountPublicKey) (\<lambda>stakeStatus.
     console_log (Log_stake_account_status (state stakeStatus)))"

section \<open>The staking functions\<close>

text \<open>The functions of \<open>core.js\<close>, each statement in the order of the source.\<close>

record Keys =
  wallet :: Keypair
  stakeAccount :: Keypair

record KeysWithValidatorKey = Keys +
  selectedValidatorPublicKey :: pubkey

text \<open>\<open>if (!connection) { connection = establishConnection(); }\<close>\<close>

definition connection_or_default :: "Connection option \<Rightarrow> ('w, Connection) task" where
  "connection_or_default connection =
     (case connection of
        None \<Rightarrow> of_result (establishConnection None None)
      | Some c \<Rightarrow> resolve c)"

definition getValidators :: "'w web3 \<Rightarrow> Connection option \<Rightarrow> ('w, unit) task" where
  "getValidators lib connection0 =
     andThen (connection_or_default connection0) (\<lambda>connection.
     andThen (conn_getVoteAccounts lib connection) (\<lambda>r.
     let totalValidators = length (current r) + length (delinquent r) in
     andThen (console_log (Log_validators totalValidators)) (\<lambda>_.
     console_log (Log_current_validators (length (current r))))))"

text \<open>
  The value that \<open>confirmTransaction\<close> resolves to (it carries the error of a confirmed
  but failed airdrop, if any) is not looked at by \<open>createStakeAccount\<close>; a rejection of
  the call (an expired block height, say) is thrown on.
\<close>

definition createStakeAccount :: "'w web3 \<Rightarrow> Connection option \<Rightarrow> ('w, Keys) task" where
  "createStakeAccount lib connection0 =
     andThen (connection_or_default connection0) (\<lambda>connection.
     andThen (createWallet lib) (\<lambda>wallet.
     let walletPublicKey = publicKey wallet in
     andThen (requestAirdrop lib connection walletPublicKey (Some 1)) (\<lambda>airdropSignature.
     andThen (conn_getLatestBlockhash lib connection) (\<lambda>latest.
     andThen (conn_confirmTransaction lib connection
                \<lparr>blockhash = blockhash latest,
                 lastValidBlockHeight = lastValidBlockHeight latest,
                 signature = airdropSignature\<rparr>) (\<lambda>_.
     andThen (createWallet lib) (\<lambda>stakeAccount.
     let stakeAccountPublicKey = publicKey stakeAccount in
     andThen (conn_getMinimumBalanceForRentExemption lib connection StakeProgram_space)
       (\<lambda>minimumRent.
     let amountUserWantsToStake = 0.5 * LAMPORTS_PER_SOL;
         amountToStake = minimumRent + amountUserWantsToStake in
     andThen (built (StakeProgram_createAccount
                \<lparr>staker = walletPublicKey, withdrawer = walletPublicKey\<rparr>
                walletPublicKey
                amountToStake
                \<lparr>unixTimestamp = 0, epoch = 0, custodian = walletPublicKey\<rparr>
                stakeAccountPublicKey)) (\<lambda>createStakeAccountTx.
     andThen (send_and_confirm lib connection createStakeAccountTx [wallet, stakeAccount])
       (\<lambda>createStakeAccountTxId.
     andThen (console_log (Log_stake_account_created createStakeAccountTxId)) (\<lambda>_.
     andThen (getBalance lib connection stakeAccountPublicKey) (\<lambda>_.
     andThen (getStakeAccountStatus lib connection stakeAccountPublicKey) (\<lambda>_.
     resolve \<lparr>wallet = wallet, stakeAccount = stakeAccount\<rparr>))))))))))))"

text \<open>
  \<open>validators.current[0]\<close> of an empty array is \<open>undefined\<close>, and reading
  \<open>votePubkey\<close> of it raises a \<open>TypeError\<close>. The status check at the end of
  \<open>delegateStake\<close> is called without \<open>await\<close>.
\<close>

definition delegateStake ::
  "'w web3 \<Rightarrow> Connection option \<Rightarrow> ('w, KeysWithValidatorKey) task" where
  "delegateStake lib connection0 =
     andThen (connection_or_default connection0) (\<lambda>connection.
     andThen (createStakeAccount lib (Some connection)) (\<lambda>createStakeAccountResult.
     let walletPublicKey = publicKey (wallet createStakeAccountResult);
         stakeAccountPublicKey = publicKey (stakeAccount createStakeAccountResult) in
     andThen (conn_getVoteAccounts lib connection) (\<lambda>validators.
     andThen (case current validators of
                [] \<Rightarrow> reject (TypeError ''Cannot read properties of undefined (reading votePubkey)'')
              | selectedValidator # _ \<Rightarrow>
                  of_result (PublicKey_new (String (votePubkey selectedValidator))))
       (\<lambda>selectedValidatorPublicKey.
     andThen (built (StakeProgram_delegate stakeAccountPublicKey walletPublicKey
                selectedValidatorPublicKey)) (\<lambda>delegateTx.
     andThen (send_and_confirm lib connection delegateTx [wallet createStakeAccountResult])
       (\<lambda>delegateTxId.
     andThen (console_log (Log_delegated selectedValidatorPublicKey delegateTxId)) (\<lambda>_.
     andThen (unawaited (getStakeAccountStatus lib connection stakeAccountPublicKey)) (\<lambda>_.
     resolve \<lparr>wallet = wallet createStakeAccountResult,
              stakeAccount = stakeAccount createStakeAccountResult,
              selectedValidatorPublicKey = selectedValidatorPublicKey\<rparr>))))))))"

definition deactivateStake ::
  "'w web3 \<Rightarrow> Connection option \<Rightarrow> ('w, KeysWithValidatorKey) task" where
  "deactivateStake lib connection0 =
     andThen (connection_or_default connection0) (\<lambda>connection.
     andThen (delegateStake lib (Some connection)) (\<lambda>delegateStakeResult.
     let walletPublicKey = publicKey (wallet delegateStakeResult);
         stakeAccountPublicKey = publicKey (stakeAccount delegateStakeResult) in
     andThen (built (StakeProgram_deactivate stakeAccountPublicKey walletPublicKey))
       (\<lambda>deactivateTx.
     andThen (send_and_confirm lib connection deactivateTx [wallet delegateStakeResult])
       (\<lambda>deactivateTxId.
     andThen (console_log (Log_deactivated deactivateTxId)) (\<lambda>_.
     andThen (getStakeAccountStatus lib connection stakeAccountPublicKey) (\<lambda>_.
     resolve delegateStakeResult))))))"

definition withdrawStake ::
  "'w web3 \<Rightarrow> Connection option \<Rightarrow> ('w, KeysWithValidatorKey) task" where
  "withdrawStake lib connection0 =
     andThen (connection_or_default connection0) (\<lambda>connection.
     andThen (deactivateStake lib (Some connection)) (\<lambda>deactivateStakeResult.
     let walletPublicKey = publicKey (wallet deactivateStakeResult);
         stakeAccountPublicKey = publicKey (stakeAccount deactivateStakeResult) in
     andThen (conn_getBalance lib connection stakeAccountPublicKey) (\<lambda>stakeBalance.
     andThen (built (StakeProgram_withdraw stakeAccountPublicKey walletPublicKey
                walletPublicKey stakeBalance)) (\<lambda>withdrawTx.
     andThen (send_and_confirm lib connection withdrawTx [wallet deactivateStakeResult])
       (\<lambda>withdrawTxId.
     andThen (console_log (Log_withdrawn withdrawTxId)) (\<lambda>_.
     andThen (getBalance lib connection stakeAccountPublicKey) (\<lambda>_.
     resolve deactivateStakeResult)))))))"

definition getDelegatorsByValidator ::
  "'w web3 \<Rightarrow> Connection option \<Rightarrow> PublicKeyInitData \<Rightarrow> ('w, unit) task" where
  "getDelegatorsByValidator lib connection0 validatorPublicKey =
     andThen (connection_or_default connection0) (\<lambda>connection.
     andThen (of_result (PublicKey_new (String ''Stake11111111111111111111111111111111111111'')))
       (\<lambda>STAKE_PROGRAM_ID.
     andThen (of_result (PublicKey_new validatorPublicKey)) (\<lambda>VOTE_PUB_KEY.
     andThen (conn_getProgramAccounts lib connection STAKE_PROGRAM_ID
                [dataSize 200, memcmp 124 VOTE_PUB_KEY]) (\<lambda>accounts.
     andThen (console_log (Log_total_delegators VOTE_PUB_KEY (length accounts))) (\<lambda>_.
     if length accounts \<noteq> 0 then console_log (Log_sample_delegator (accounts ! 0))
     else resolve ())))))"

section \<open>The entry flows\<close>

definition index_main :: "'w web3 \<Rightarrow> ('w, unit) task" where
  "index_main lib =
     andThen (of_result (establishConnection None None)) (\<lambda>connection.
     andThen (getValidators lib (Some connection)) (\<lambda>_.
     andThen (withdrawStake lib (Some connection)) (\<lambda>r.
     getDelegatorsByValidator lib (Some connection)
       (PublicKeyData (selectedValidatorPublicKey r)))))"

definition index_runMain :: "'w web3 \<Rightarrow> ('w, unit) task" where
  "index_runMain lib =
     tryCatch (index_main lib) (\<lambda>err. console_error (Some ''Error Encountered: '') err)"

definition create_stake_account_main :: "'w web3 \<Rightarrow> ('w, unit) task" where
  "create_stake_account_main lib =
     andThen (of_result (establishConnection None None)) (\<lambda>connection.
     andThen (createStakeAccount lib (Some connection)) (\<lambda>_. resolve ()))"

definition create_stake_account_runMain :: "'w web3 \<Rightarrow> ('w, unit) task" where
  "create_stake_account_runMain lib =
     tryCatch (create_stake_account_main lib) (\<lambda>err. console_error None err)"

definition get_validators_main :: "'w web3 \<Rightarrow> ('w, unit) task" where
  "get_validators_main lib =
     andThen (of_result (establishConnection None None)) (\<lambda>connection.
     getValidators lib (Some connection))"

definition get_validators_runMain :: "'w web3 \<Rightarrow> ('w, unit) task" where
  "get_validators_runMain lib =
     tryCatch (get_validators_main lib) (\<lambda>err. console_error (Some ''Error Encountered: '') err)"

definition delegate_stake_main :: "'w web3 \<Rightarrow> ('w, unit) task" where
  "delegate_stake_main lib =
     andThen (of_result (establishConnection None None)) (\<lambda>connection.
     andThen (delegateStake lib (Some connection)) (\<lambda>_. resolve ()))"

definition delegate_stake_runMain :: "'w web3 \<Rightarrow> ('w, unit) task" where
  "delegate_stake_runMain lib =
     tryCatch (delegate_stake_main lib) (\<lambda>err. console_error (Some ''Error Encountered: '') err)"

definition withdraw_stake_main :: "'w web3 \<Rightarrow> ('w, unit) task" where
  "withdraw_stake_main lib =
     andThen (of_result (establishConnection None None)) (\<lambda>connection.
     andThen (withdrawStake lib (Some connection)) (\<lambda>_. resolve ()))"

definition withdraw_stake_runMain :: "'w web3 \<Rightarrow> ('w, unit) task" where
  "withdraw_stake_runMain lib =
     tryCatch (withdraw_stake_main lib) (\<lambda>err. console_error None err)"

text \<open>The scan's entry flow calls the scan with the connection only.\<close>

definition get_delegators_by_validator_main :: "'w web3 \<Rightarrow> ('w, unit) task" where
  "get_delegators_by_validator_main lib =
     andThen (of_result (establishConnection None None)) (\<lambda>connection.
     getDelegatorsByValidator lib (Some connection) Undefined)"

definition get_delegators_by_validator_runMain :: "'w web3 \<Rightarrow> ('w, unit) task" where
  "get_delegators_by_validator_runMain lib =
     tryCatch (get_delegators_by_validator_main lib) (\<lambda>err. console_error None err)"

section \<open>Observations on traces\<close>

text \<open>The error of a call that rejected.\<close>

fun failure :: "event \<Rightarrow> error option" where
  "failure (Call c (Inl e)) = Some e"
| "failure _ = None"

text \<open>
  A run aborts at a failure when the first rejected call is the last event of the trace
  and its error is the outcome of the run.
\<close>

fun aborts_at_failure :: "(error + 'a) \<Rightarrow> event list \<Rightarrow> bool" where
  "aborts_at_failure out [] = True"
| "aborts_at_failure out (ev # t) =
     (case failure ev of None \<Rightarrow> aborts_at_failure out t | Some e \<Rightarrow> t = [] \<and> out = Inl e)"

fun built_tx :: "event \<Rightarrow> transaction option" where
  "built_tx (Built tx) = Some tx"
| "built_tx _ = None"

definition built_txs :: "event list \<Rightarrow> transaction list" where
  "built_txs t = List.map_filter built_tx t"

fun confirmed_tx :: "event \<Rightarrow> transaction option" where
  "confirmed_tx (Call (sendAndConfirmTransaction tx signers) (Inr r)) = Some tx"
| "confirmed_tx _ = None"

definition confirmed_txs :: "event list \<Rightarrow> transaction list" where
  "confirmed_txs t = List.map_filter confirmed_tx t"

fun rent_reply :: "event \<Rightarrow> (real \<times> real) option" where
  "rent_reply (Call (Connection_getMinimumBalanceForRentExemption n) (Inr (R_Number r))) = Some (n, r)"
| "rent_reply _ = None"

definition rent_replies :: "event list \<Rightarrow> (real \<times> real) list" where
  "rent_replies t = List.map_filter rent_reply t"

fun console_line :: "event \<Rightarrow> log_line option" where
  "console_line (ConsoleLog l) = Some l"
| "console_line _ = None"

definition console_lines :: "event list \<Rightarrow> log_line list" where
  "console_lines t = List.map_filter console_line t"

datatype stage = Create | Delegate | Deactivate | Withdraw

datatype step = Builds stage | Submits stage

fun stage_of :: "transaction \<Rightarrow> stage" where
  "stage_of (StakeProgram_createAccount a f l lk s) = Create"
| "stage_of (StakeProgram_delegate s a v) = Delegate"
| "stage_of (StakeProgram_deactivate s a) = Deactivate"
| "stage_of (StakeProgram_withdraw s a d l) = Withdraw"

fun step_of :: "event \<Rightarrow> step option" where
  "step_of (Built tx) = Some (Builds (stage_of tx))"
| "step_of (Call (sendAndConfirmTransaction tx signers) r) = Some (Submits (stage_of tx))"
| "step_of _ = None"

definition steps :: "event list \<Rightarrow> step list" where
  "steps t = List.map_filter step_of t"

definition lifecycle :: "step list" where
  "lifecycle =
     [Builds Create, Submits Create, Builds Delegate, Submits Delegate,
      Builds Deactivate, Submits Deactivate, Builds Withdraw, Submits Withdraw]"

text \<open>
  \<open>post m P\<close>: every run of \<open>m\<close>, from every world, ends with an outcome and a trace
  in \<open>P\<close>.
\<close>

definition post :: "('w, 'a) task \<Rightarrow> ((error + 'a) \<Rightarrow> event list \<Rightarrow> bool) \<Rightarrow> bool" where
  "post m P = (\<forall>w out t w'. m w = (out, t, w') \<longrightarrow> P out t)"

text \<open>The 32 bytes that the address of the stake program in the scan decodes to.\<close>

definition STAKE_PROGRAM_ID :: pubkey where
  "STAKE_PROGRAM_ID = [6, 161, 216, 23, 145, 55, 84, 42, 152, 52, 55, 189, 254, 42, 122, 178,
     85, 127, 83, 92, 138, 120, 114, 43, 104, 164, 157, 192, 0, 0, 0, 0]"

text \<open>The connection a staking function works with: the one it is given, or the default one.\<close>

definition connection_used :: "Connection option \<Rightarrow> Connection" where
  "connection_used connection =
     (case connection of
        None \<Rightarrow> \<lparr>rpcEndpoint = ''https://api.devnet.solana.com'', commitment = ''processed''\<rparr>
      | Some c \<Rightarrow> c)"

section \<open>A test network\<close>

definition demo_keypair :: "nat \<Rightarrow> Keypair" where
  "demo_keypair n = \<lparr>publicKey = replicate 32 (of_nat n), secretKey = replicate 64 (of_nat n)\<rparr>"

definition demo_connection :: Connection where
  "demo_connection = \<lparr>rpcEndpoint = ''https://api.devnet.solana.com'', commitment = ''processed''\<rparr>"

definition demo_vote_key :: pubkey where
  "demo_vote_key = [7, 97, 72, 29, 53, 116, 116, 187, 124, 77, 118, 36, 235, 211, 189, 179,
     216, 53, 94, 115, 209, 16, 67, 252, 13, 163, 83, 128, 0, 0, 0, 0]"

definition demo_account :: "nat \<Rightarrow> byte list \<Rightarrow> ProgramAccount" where
  "demo_account n d =
     \<lparr>pubkey = replicate 32 (of_nat n),
      account = \<lparr>data = d, executable = False, accountLamports = 502282880,
                 owner = replicate 32 0\<rparr>\<rparr>"

text \<open>
  The world of the test network is a counter of the calls made so far. Every call
  succeeds; there is one active validator; the stake program holds three accounts, of
  which only the first is a 200-byte account with the validator's key at offset 124 (the
  second has the key there and 201 bytes, the third has 200 bytes and the key reversed).
\<close>

definition demo_lib :: "nat web3" where
  "demo_lib = \<lparr>
     lib_Keypair_generate = (\<lambda>w. (demo_keypair (Suc w), Suc w)),
     lib_sendAndConfirmTransaction = (\<lambda>c tx s w. (Inr ''txid'', Suc w)),
     rpc_requestAirdrop = (\<lambda>c k n w. (Inr ''airdrop'', Suc w)),
     rpc_getLatestBlockhash =
       (\<lambda>c w. (Inr \<lparr>blockhash = ''hash'', lastValidBlockHeight = 100\<rparr>, Suc w)),
     rpc_confirmTransaction = (\<lambda>c s w. (Inr None, Suc w)),
     rpc_getMinimumBalanceForRentExemption = (\<lambda>c n w. (Inr 2282880, Suc w)),
     rpc_getBalance = (\<lambda>c k w. (Inr 502282880, Suc w)),
     rpc_getStakeActivation =
       (\<lambda>c k w. (Inr \<lparr>state = ''inactive'', active = 0, inactive = 500000000\<rparr>, Suc w)),
     rpc_getVoteAccounts =
       (\<lambda>c w. (Inr \<lparr>current = [\<lparr>votePubkey = ''Vote111111111111111111111111111111111111111'',
                                 nodePubkey = ''Node'', activatedStake = 7\<rparr>],
                     delinquent = []\<rparr>, Suc w)),
     rpc_programAccounts =
       (\<lambda>c p w. (Inr [demo_account 1 (replicate 124 0 @ demo_vote_key @ replicate 44 0),
                       demo_account 2 (replicate 124 0 @ demo_vote_key @ replicate 45 0),
                       demo_account 3
                         (replicate 124 0 @ rev demo_vote_key @ replicate 44 0)],
                  Suc w))\<rparr>"

text \<open>The same network when the submission of one stage's transaction is rejected.\<close>

definition demo_lib_expired :: "stage \<Rightarrow> nat web3" where
  "demo_lib_expired failing = demo_lib\<lparr>lib_sendAndConfirmTransaction :=
     (\<lambda>c tx s w. (if stage_of tx = failing then Inl (RpcError ''block height exceeded'')
                   else Inr ''txid'', Suc w))\<rparr>"

text \<open>The same network with no active validator.\<close>

definition demo_lib_no_validator :: "nat web3" where
  "demo_lib_no_validator = demo_lib\<lparr>rpc_getVoteAccounts :=
     (\<lambda>c w. (Inr \<lparr>current = [], delinquent = []\<rparr>, Suc w))\<rparr>"

text \<open>The same network when the stake program holds no account.\<close>

definition demo_lib_no_account :: "nat web3" where
  "demo_lib_no_account = demo_lib\<lparr>rpc_programAccounts := (\<lambda>c p w. (Inr [], Suc w))\<rparr>"

definition demo_wallet :: Keypair where
  "demo_wallet = demo_keypair 1"

definition demo_stake_account :: Keypair where
  "demo_stake_account = demo_keypair 5"

definition demo_create_tx :: transaction where
  "demo_create_tx =
     StakeProgram_createAccount
       \<lparr>staker = publicKey demo_wallet, withdrawer = publicKey demo_wallet\<rparr>
       (publicKey demo_wallet) 502282880
       \<lparr>unixTimestamp = 0, epoch = 0, custodian = publicKey demo_wallet\<rparr>
       (publicKey demo_stake_account)"

definition demo_withdraw_tx :: transaction where
  "demo_withdraw_tx =
     StakeProgram_withdraw (publicKey demo_stake_account) (publicKey demo_wallet)
       (publicKey demo_wallet) 502282880"

section \<open>Rules for runs\<close>

lemma postD: "post m P \<Longrightarrow> m w = (out, t, w') \<Longrightarrow> P out t"
  unfolding post_def by blast

lemma andThen_assoc: "andThen (andThen m f) g = andThen m (\<lambda>x. andThen (f x) g)"
  by (rule ext) (simp add: andThen_def split: prod.splits sum.splits)

lemma andThen_resolve: "andThen (resolve a) g = g a"
  by (rule ext) (simp add: andThen_def resolve_def split: prod.splits)

lemma andThenE:
  assumes "andThen m f w = (out, t, w')"
  obtains (rejected) e where "m w = (Inl e, t, w')" "out = Inl e"
  | (resolved) a t1 w1 t2 where "m w = (Inr a, t1, w1)" "f a w1 = (out, t2, w')" "t = t1 @ t2"
proof (cases "m w")
  case (fields r t1 w1)
  show ?thesis
  proof (cases r)
    case (Inl e)
    with fields assms have "m w = (Inl e, t, w')" "out = Inl e"
      by (simp_all add: andThen_def)
    then show ?thesis by (rule rejected)
  next
    case (Inr a)
    obtain out2 t2 w2 where f: "f a w1 = (out2, t2, w2)" by (cases "f a w1")
    with fields Inr assms have "out = out2" "t = t1 @ t2" "w' = w2"
      by (simp_all add: andThen_def)
    with fields Inr f show ?thesis by (intro resolved [of a t1 w1 t2]) simp_all
  qed
qed

text \<open>
  One rule for each statement form of the source. Applied from the first statement of a
  function to its last, they leave one goal for each place where the run can end, with
  the trace up to that place written out.
\<close>

lemma post_resolve: "P (Inr a) [] \<Longrightarrow> post (resolve a) P"
  by (simp add: post_def resolve_def)

lemma post_console_log: "P (Inr ()) [ConsoleLog l] \<Longrightarrow> post (console_log l) P"
  by (simp add: post_def console_log_def)

lemma post_call:
  assumes "\<And>e. P (Inl e) [Call c (Inl e)]"
    and "\<And>a. post (g a) (\<lambda>out t. P out (Call c (Inr (wrap a)) # t))"
  shows "post (andThen (invoke c wrap f) g) P"
  unfolding post_def
proof (intro allI impI)
  fix w out t w'
  assume run: "andThen (invoke c wrap f) g w = (out, t, w')"
  obtain r w1 where f: "f w = (r, w1)" by (cases "f w")
  show "P out t"
  proof (cases r)
    case (Inl e)
    with run f assms(1) [of e] show ?thesis by (simp add: andThen_def invoke_def)
  next
    case (Inr a)
    obtain out2 t2 w2 where g: "g a w1 = (out2, t2, w2)" by (cases "g a w1")
    with run f Inr have "out = out2" "t = Call c (Inr (wrap a)) # t2"
      by (simp_all add: andThen_def invoke_def)
    with assms(2) [of a] g show ?thesis by (auto simp: post_def)
  qed
qed

lemma post_log:
  assumes "post (g ()) (\<lambda>out t. P out (ConsoleLog l # t))"
  shows "post (andThen (console_log l) g) P"
  using assms by (auto simp: post_def andThen_def console_log_def split: prod.splits)

lemma post_built:
  assumes "post (g tx) (\<lambda>out t. P out (Built tx # t))"
  shows "post (andThen (built tx) g) P"
  using assms by (auto simp: post_def andThen_def built_def split: prod.splits)

lemma post_unawaited:
  assumes "\<And>t0. post (g ()) (\<lambda>out t. P out (Unawaited t0 # t))"
  shows "post (andThen (unawaited m) g) P"
  using assms by (auto simp: post_def andThen_def unawaited_def split: prod.splits)

lemma post_of_result:
  assumes "\<And>e. r = Inl e \<Longrightarrow> P (Inl e) []"
    and "\<And>a. r = Inr a \<Longrightarrow> post (g a) P"
  shows "post (andThen (of_result r) g) P"
  using assms by (cases r) (auto simp: post_def andThen_def of_result_def split: prod.splits)

lemmas post_rules =
  post_call post_log post_built post_unawaited post_of_result post_resolve post_console_log

lemma connection_or_default_resolve:
  "connection_or_default connection = resolve (connection_used connection)"
  by (cases connection)
     (simp_all add: connection_or_default_def connection_used_def establishConnection_def
        clusterApiUrl_def of_result_def resolve_def)

lemma first_validator_of_result:
  "(case xs of [] \<Rightarrow> reject e | v # vs \<Rightarrow> of_result (F v)) =
   of_result (case xs of [] \<Rightarrow> Inl e | v # vs \<Rightarrow> F v)"
  by (cases xs) (simp_all add: reject_def of_result_def)

text \<open>The equations that write a function of the source as one chain of statements.\<close>

lemmas flat =
  andThen_assoc andThen_resolve connection_or_default_resolve first_validator_of_result
  createWallet_def requestAirdrop_def getBalance_def getStakeAccountStatus_def
  Keypair_generate_task_def send_and_confirm_def conn_requestAirdrop_def
  conn_getLatestBlockhash_def conn_confirmTransaction_def
  conn_getMinimumBalanceForRentExemption_def conn_getBalance_def conn_getStakeActivation_def
  conn_getVoteAccounts_def Let_def

lemmas stage_defs =
  withdrawStake_def deactivateStake_def delegateStake_def createStakeAccount_def

lemmas obs =
  built_txs_def confirmed_txs_def rent_replies_def console_lines_def steps_def lifecycle_def

text \<open>The definitions that evaluate a run on a given network.\<close>

lemmas run_defs =
  resolve_def reject_def of_result_def andThen_def tryCatch_def unawaited_def
  invoke_def built_def console_log_def console_error_def
  Keypair_generate_task_def send_and_confirm_def conn_requestAirdrop_def
  conn_getLatestBlockhash_def conn_confirmTransaction_def
  conn_getMinimumBalanceForRentExemption_def conn_getBalance_def conn_getStakeActivation_def
  conn_getVoteAccounts_def conn_getProgramAccounts_def
  createWallet_def requestAirdrop_def getBalance_def getStakeAccountStatus_def
  connection_or_default_def Let_def

lemmas demo_defs =
  demo_lib_def demo_keypair_def demo_wallet_def demo_stake_account_def demo_create_tx_def
  demo_withdraw_tx_def LAMPORTS_PER_SOL_def

lemma demo_vote_key_decodes:
  "PublicKey_new (String ''Vote111111111111111111111111111111111111111'') = Inr demo_vote_key"
  by (simp add: PublicKey_new_def bs58_decode_def ALPHABET_def bytes_be.simps
      PUBLIC_KEY_LENGTH_def demo_vote_key_def)

lemma STAKE_PROGRAM_ID_decodes:
  "PublicKey_new (String ''Stake11111111111111111111111111111111111111'') = Inr STAKE_PROGRAM_ID"
  by (simp add: PublicKey_new_def bs58_decode_def ALPHABET_def bytes_be.simps
      PUBLIC_KEY_LENGTH_def STAKE_PROGRAM_ID_def)

lemma Built_in_built_txs: "Built tx \<in> set t \<longleftrightarrow> tx \<in> set (built_txs t)"
proof (induction t)
  case Nil
  then show ?case by (simp add: built_txs_def)
next
  case (Cons ev t)
  then show ?case by (cases ev) (auto simp: built_txs_def)
qed

section \<open>Creating the stake account\<close>

lemma createStakeAccount_builds_for_wallet:
  "post (createStakeAccount lib connection) (\<lambda>out t. \<forall>tx. Built tx \<in> set t \<longrightarrow>
     (\<exists>wallet rest l s.
        t = Call Keypair_generate (Inr (R_Keypair wallet)) # rest
        \<and> (\<forall>k. out = Inr k \<longrightarrow> Keys.wallet k = wallet)
        \<and> tx = StakeProgram_createAccount
                \<lparr>staker = publicKey wallet, withdrawer = publicKey wallet\<rparr>
                (publicKey wallet) l
                \<lparr>unixTimestamp = 0, epoch = 0, custodian = publicKey wallet\<rparr> s))"
  unfolding createStakeAccount_def
  apply (simp only: flat)
  apply (intro post_rules)
  apply simp_all
  done

lemma createStakeAccount_builds_once:
  "post (createStakeAccount lib connection) (\<lambda>out t.
      length (built_txs t) \<le> 1 \<and> set (confirmed_txs t) \<subseteq> set (built_txs t) \<and>
      ((\<exists>k. out = Inr k) \<longrightarrow> (\<exists>tx. built_txs t = [tx] \<and> confirmed_txs t = [tx])))"
  unfolding createStakeAccount_def
  apply (simp only: flat)
  apply (intro post_rules)
  apply (simp_all add: obs)
  done

text \<open>
  C1. In every run of \<open>createStakeAccount\<close>, a transaction that is built is the
  create-account instruction whose authorized staker and authorized withdrawer are both
  the public key of the wallet (the key pair generated first, which is also the wallet the
  run returns), and whose lockup has unix timestamp zero, epoch zero and the wallet's
  public key as custodian. At most one transaction is built, only a built transaction is
  confirmed, and a run that returns has built and confirmed exactly one.
\<close>

theorem createStakeAccount_authority_and_lockup:
  assumes "createStakeAccount lib connection w = (out, t, w')"
  shows "(\<forall>tx. Built tx \<in> set t \<longrightarrow>
           (\<exists>wallet rest l s.
              t = Call Keypair_generate (Inr (R_Keypair wallet)) # rest
              \<and> (\<forall>k. out = Inr k \<longrightarrow> Keys.wallet k = wallet)
              \<and> tx = StakeProgram_createAccount
                      \<lparr>staker = publicKey wallet, withdrawer = publicKey wallet\<rparr>
                      (publicKey wallet) l
                      \<lparr>unixTimestamp = 0, epoch = 0, custodian = publicKey wallet\<rparr> s))
       \<and> length (built_txs t) \<le> 1
       \<and> set (confirmed_txs t) \<subseteq> set (built_txs t)
       \<and> ((\<exists>k. out = Inr k) \<longrightarrow> (\<exists>tx. built_txs t = [tx] \<and> confirmed_txs t = [tx]))"
  using postD [OF createStakeAccount_builds_for_wallet assms]
    postD [OF createStakeAccount_builds_once assms]
  by simp

theorem createStakeAccount_authority_and_lockup_witness:
  "\<exists>out t w'. createStakeAccount demo_lib (Some demo_connection) 0 = (out, t, w')
     \<and> out = Inr \<lparr>wallet = demo_wallet, stakeAccount = demo_stake_account\<rparr>
     \<and> Built demo_create_tx \<in> set t
     \<and> authorized demo_create_tx
         = \<lparr>staker = publicKey demo_wallet, withdrawer = publicKey demo_wallet\<rparr>
     \<and> lockup demo_create_tx
         = \<lparr>unixTimestamp = 0, epoch = 0, custodian = publicKey demo_wallet\<rparr>
     \<and> built_txs t = [demo_create_tx] \<and> confirmed_txs t = [demo_create_tx]"
proof -
  obtain out t w' where run: "createStakeAccount demo_lib (Some demo_connection) 0 = (out, t, w')"
    by (cases "createStakeAccount demo_lib (Some demo_connection) 0")
  have ok: "out = Inr \<lparr>wallet = demo_wallet, stakeAccount = demo_stake_account\<rparr>"
    and built: "Built demo_create_tx \<in> set t"
    using run by (auto simp: createStakeAccount_def run_defs demo_defs)
  from createStakeAccount_authority_and_lockup [OF run] ok built
  have "built_txs t = [demo_create_tx] \<and> confirmed_txs t = [demo_create_tx]"
    by (auto simp: Built_in_built_txs)
  with run ok built show ?thesis by (simp add: demo_create_tx_def)
qed




section \<open>Failures\<close>

lemma aborts_at_failureD:
  "aborts_at_failure out t \<Longrightarrow> t = t1 @ ev # t2 \<Longrightarrow> failure ev = Some e
     \<Longrightarrow> t2 = [] \<and> out = Inl e"
proof (induction t arbitrary: t1)
  case Nil
  then show ?case by simp
next
  case (Cons x t)
  show ?case
  proof (cases t1)
    case Nil
    with Cons.prems show ?thesis by simp
  next
    case (Cons y ys)
    with Cons.prems have t: "t = ys @ ev # t2" by simp
    then have "t \<noteq> []" by simp
    with Cons.prems(1) have "aborts_at_failure out t"
      by (auto split: option.splits)
    from Cons.IH [OF this t Cons.prems(3)] show ?thesis .
  qed
qed

lemma createStakeAccount_aborts: "post (createStakeAccount lib connection) aborts_at_failure"
  unfolding stage_defs
  apply (simp only: flat)
  apply (intro post_rules)
  apply simp_all
  done

lemma delegateStake_aborts: "post (delegateStake lib connection) aborts_at_failure"
  unfolding stage_defs
  apply (simp only: flat)
  apply (intro post_rules)
  apply simp_all
  done

lemma deactivateStake_aborts: "post (deactivateStake lib connection) aborts_at_failure"
  unfolding stage_defs
  apply (simp only: flat)
  apply (intro post_rules)
  apply simp_all
  done

lemma withdrawStake_aborts: "post (withdrawStake lib connection) aborts_at_failure"
  unfolding stage_defs
  apply (simp only: flat)
  apply (intro post_rules)
  apply simp_all
  done

text \<open>
  C6. In a run of any of the four stage functions, a call that the library rejects (the
  confirmation of a stage's transaction by \<open>sendAndConfirmTransaction\<close>, for instance when
  the block height is exceeded) is the last event of the run: nothing is built, submitted,
  asked or logged after it, and the function rejects with the error of that call. As each
  stage function calls its predecessor, the error of a stage is the outcome of every stage
  that was entered above it.
\<close>

theorem failed_confirmation_aborts:
  assumes "failure ev = Some e"
  shows "(createStakeAccount lib connection w = (out1, t1 @ ev # t2, w') \<longrightarrow>
            t2 = [] \<and> out1 = Inl e)
       \<and> (delegateStake lib connection w = (out2, t1 @ ev # t2, w') \<longrightarrow>
            t2 = [] \<and> out2 = Inl e)
       \<and> (deactivateStake lib connection w = (out3, t1 @ ev # t2, w') \<longrightarrow>
            t2 = [] \<and> out3 = Inl e)
       \<and> (withdrawStake lib connection w = (out4, t1 @ ev # t2, w') \<longrightarrow>
            t2 = [] \<and> out4 = Inl e)"
proof -
  have c: "t2 = [] \<and> out1 = Inl e"
    if "createStakeAccount lib connection w = (out1, t1 @ ev # t2, w')"
    using aborts_at_failureD [OF postD [OF createStakeAccount_aborts that] refl assms] .
  have d: "t2 = [] \<and> out2 = Inl e"
    if "delegateStake lib connection w = (out2, t1 @ ev # t2, w')"
    using aborts_at_failureD [OF postD [OF delegateStake_aborts that] refl assms] .
  have a: "t2 = [] \<and> out3 = Inl e"
    if "deactivateStake lib connection w = (out3, t1 @ ev # t2, w')"
    using aborts_at_failureD [OF postD [OF deactivateStake_aborts that] refl assms] .
  have w: "t2 = [] \<and> out4 = Inl e"
    if "withdrawStake lib connection w = (out4, t1 @ ev # t2, w')"
    using aborts_at_failureD [OF postD [OF withdrawStake_aborts that] refl assms] .
  from c d a w show ?thesis by blast
qed

theorem failed_confirmation_aborts_witness:
  "failure (last (fst (snd
       (createStakeAccount (demo_lib_expired Create) (Some demo_connection) 0))))
     = Some (RpcError ''block height exceeded'')
   \<and> fst (createStakeAccount (demo_lib_expired Create) (Some demo_connection) 0)
     = Inl (RpcError ''block height exceeded'')
   \<and> failure (last (fst (snd
       (delegateStake (demo_lib_expired Delegate) (Some demo_connection) 0))))
     = Some (RpcError ''block height exceeded'')
   \<and> fst (delegateStake (demo_lib_expired Delegate) (Some demo_connection) 0)
     = Inl (RpcError ''block height exceeded'')
   \<and> failure (last (fst (snd
       (deactivateStake (demo_lib_expired Delegate) (Some demo_connection) 0))))
     = Some (RpcError ''block height exceeded'')
   \<and> fst (deactivateStake (demo_lib_expired Delegate) (Some demo_connection) 0)
     = Inl (RpcError ''block height exceeded'')
   \<and> failure (last (fst (snd
       (withdrawStake (demo_lib_expired Delegate) (Some demo_connection) 0))))
     = Some (RpcError ''block height exceeded'')
   \<and> fst (withdrawStake (demo_lib_expired Delegate) (Some demo_connection) 0)
     = Inl (RpcError ''block height exceeded'')
   \<and> steps (fst (snd (withdrawStake (demo_lib_expired Delegate) (Some demo_connection) 0)))
     = [Builds Create, Submits Create, Builds Delegate, Submits Delegate]"
proof -
  let ?e = "RpcError ''block height exceeded''"
  note defs = stage_defs run_defs demo_defs demo_lib_expired_def demo_vote_key_decodes obs
  define r1 where "r1 = createStakeAccount (demo_lib_expired Create) (Some demo_connection) 0"
  have f1: "failure (last (fst (snd r1))) = Some ?e"
    unfolding r1_def by (simp add: defs)
  have n1: "fst (snd r1) \<noteq> []"
    unfolding r1_def by (simp add: defs)
  have run1: "createStakeAccount (demo_lib_expired Create) (Some demo_connection) 0
       = (fst r1, butlast (fst (snd r1)) @ last (fst (snd r1)) # [], snd (snd r1))"
    using n1 by (simp add: r1_def)
  define r2 where "r2 = delegateStake (demo_lib_expired Delegate) (Some demo_connection) 0"
  have f2: "failure (last (fst (snd r2))) = Some ?e"
    unfolding r2_def by (simp add: defs)
  have n2: "fst (snd r2) \<noteq> []"
    unfolding r2_def by (simp add: defs)
  have run2: "delegateStake (demo_lib_expired Delegate) (Some demo_connection) 0
       = (fst r2, butlast (fst (snd r2)) @ last (fst (snd r2)) # [], snd (snd r2))"
    using n2 by (simp add: r2_def)
  define r3 where "r3 = deactivateStake (demo_lib_expired Delegate) (Some demo_connection) 0"
  have f3: "failure (last (fst (snd r3))) = Some ?e"
    unfolding r3_def by (simp add: defs)
  have n3: "fst (snd r3) \<noteq> []"
    unfolding r3_def by (simp add: defs)
  have run3: "deactivateStake (demo_lib_expired Delegate) (Some demo_connection) 0
       = (fst r3, butlast (fst (snd r3)) @ last (fst (snd r3)) # [], snd (snd r3))"
    using n3 by (simp add: r3_def)
  define r4 where "r4 = withdrawStake (demo_lib_expired Delegate) (Some demo_connection) 0"
  have f4: "failure (last (fst (snd r4))) = Some ?e"
    unfolding r4_def by (simp add: defs)
  have n4: "fst (snd r4) \<noteq> []"
    unfolding r4_def by (simp add: defs)
  have run4: "withdrawStake (demo_lib_expired Delegate) (Some demo_connection) 0
       = (fst r4, butlast (fst (snd r4)) @ last (fst (snd r4)) # [], snd (snd r4))"
    using n4 by (simp add: r4_def)
  have s4: "steps (fst (snd r4))
       = [Builds Create, Submits Create, Builds Delegate, Submits Delegate]"
    unfolding r4_def by (simp add: defs)
  from failed_confirmation_aborts [OF f1, THEN conjunct1, rule_format, OF run1]
  have o1: "fst r1 = Inl ?e" by simp
  from failed_confirmation_aborts
    [OF f2, THEN conjunct2, THEN conjunct1, rule_format, OF run2]
  have o2: "fst r2 = Inl ?e" by simp
  from failed_confirmation_aborts
    [OF f3, THEN conjunct2, THEN conjunct2, THEN conjunct1, rule_format, OF run3]
  have o3: "fst r3 = Inl ?e" by simp
  from failed_confirmation_aborts
    [OF f4, THEN conjunct2, THEN conjunct2, THEN conjunct2, rule_format, OF run4]
  have o4: "fst r4 = Inl ?e" by simp
  from f1 o1 f2 o2 f3 o3 f4 o4 s4 show ?thesis
    unfolding r1_def r2_def r3_def r4_def by (intro conjI)
qed

section \<open>The order of the stages\<close>



text \<open>
  Whenever \<open>delegateStake\<close> returns to its caller, the last thing it did was to start its
  status check without waiting for it (the status checks of \<open>createStakeAccount\<close> and of
  \<open>deactivateStake\<close> are awaited). On the test network the next event of \<open>withdrawStake\<close>
  is then the construction of the deactivation transaction.
\<close>

lemma delegateStake_returns_before_status:
  "post (delegateStake lib connection) (\<lambda>out t.
     \<forall>r. out = Inr r \<longrightarrow> (\<exists>t0. t \<noteq> [] \<and> last t = Unawaited t0))"
  unfolding stage_defs
  apply (simp only: flat)
  apply (intro post_rules)
  apply simp_all
  done

lemma withdrawStake_status_check_not_awaited:
  "\<exists>t1 t2. fst (snd (withdrawStake demo_lib (Some demo_connection) 0)) =
      t1 @ [Call (sendAndConfirmTransaction
                    (StakeProgram_delegate (publicKey demo_stake_account)
                       (publicKey demo_wallet) demo_vote_key)
                    [demo_wallet])
              (Inr (R_String ''txid'')),
            ConsoleLog (Log_delegated demo_vote_key ''txid''),
            Unawaited
              [Call (Connection_getStakeActivation (publicKey demo_stake_account))
                 (Inr (R_StakeActivation
                    \<lparr>state = ''inactive'', active = 0, inactive = 500000000\<rparr>)),
               ConsoleLog (Log_stake_account_status ''inactive'')],
            Built (StakeProgram_deactivate (publicKey demo_stake_account)
                     (publicKey demo_wallet))] @ t2"
  apply (rule exI [of _ "take 15 (fst (snd (withdrawStake demo_lib (Some demo_connection) 0)))"])
  apply (rule exI [of _ "drop 19 (fst (snd (withdrawStake demo_lib (Some demo_connection) 0)))"])
  apply (simp add: stage_defs run_defs demo_defs demo_vote_key_decodes)
  done



section \<open>The amount withdrawn\<close>



lemma withdrawStake_decompose:
  "withdrawStake lib connection =
     andThen (deactivateStake lib (Some (connection_used connection))) (\<lambda>r.
     andThen (conn_getBalance lib (connection_used connection) (publicKey (stakeAccount r)))
       (\<lambda>stakeBalance.
     andThen (built (StakeProgram_withdraw (publicKey (stakeAccount r)) (publicKey (wallet r))
                (publicKey (wallet r)) stakeBalance)) (\<lambda>withdrawTx.
     andThen (send_and_confirm lib (connection_used connection) withdrawTx [wallet r])
       (\<lambda>withdrawTxId.
     andThen (console_log (Log_withdrawn withdrawTxId)) (\<lambda>_.
     andThen (getBalance lib (connection_used connection) (publicKey (stakeAccount r))) (\<lambda>_.
     resolve r))))))"
  by (simp add: withdrawStake_def connection_or_default_resolve andThen_resolve Let_def)

lemma withdrawStake_tail:
  "post (andThen (conn_getBalance lib c (publicKey (stakeAccount r)))
       (\<lambda>stakeBalance.
     andThen (built (StakeProgram_withdraw (publicKey (stakeAccount r)) (publicKey (wallet r))
                (publicKey (wallet r)) stakeBalance)) (\<lambda>withdrawTx.
     andThen (send_and_confirm lib c withdrawTx [wallet r]) (\<lambda>withdrawTxId.
     andThen (console_log (Log_withdrawn withdrawTxId)) (\<lambda>_.
     andThen (getBalance lib c (publicKey (stakeAccount r))) (\<lambda>_.
     resolve r))))))
    (\<lambda>out t. (\<forall>r'. out = Inr r' \<longrightarrow> r' = r) \<and> (\<forall>tx. Built tx \<in> set t \<longrightarrow>
       (\<exists>l t3. tx = StakeProgram_withdraw (publicKey (stakeAccount r)) (publicKey (wallet r))
                (publicKey (wallet r)) l
          \<and> t = Call (Connection_getBalance (publicKey (stakeAccount r))) (Inr (R_Number l))
                # Built tx # t3
          \<and> built_txs t3 = [])))"
  apply (simp only: flat)
  apply (intro post_rules)
  apply (simp_all add: obs)
  done



section \<open>Delegating without a validator\<close>

lemma delegateStake_without_validator:
  "post (delegateStake lib connection) (\<lambda>out t.
     \<forall>v. Call Connection_getVoteAccounts (Inr (R_VoteAccounts v)) \<in> set t \<and> current v = [] \<longrightarrow>
       out = Inl (TypeError ''Cannot read properties of undefined (reading votePubkey)'')
       \<and> last t = Call Connection_getVoteAccounts (Inr (R_VoteAccounts v))
       \<and> steps t = [Builds Create, Submits Create])"
  unfolding stage_defs
  apply (simp only: flat)
  apply (intro post_rules)
  apply (auto simp: obs split: list.splits)
  done

text \<open>
  C8. \<open>delegateStake\<close> does not test the validator set. In a run in which
  \<open>getVoteAccounts\<close> answers with an empty list of current validators, the function
  rejects with the \<open>TypeError\<close> of reading \<open>votePubkey\<close> of \<open>undefined\<close>; the answer of
  \<open>getVoteAccounts\<close> is the last event of the run, so no delegation is built or submitted,
  and the stake account was already created and funded.
\<close>

theorem delegateStake_no_validator:
  assumes "delegateStake lib connection w = (out, t, w')"
    and "Call Connection_getVoteAccounts (Inr (R_VoteAccounts v)) \<in> set t"
    and "current v = []"
  shows "out = Inl (TypeError ''Cannot read properties of undefined (reading votePubkey)'')
       \<and> last t = Call Connection_getVoteAccounts (Inr (R_VoteAccounts v))
       \<and> steps t = [Builds Create, Submits Create]"
  using postD [OF delegateStake_without_validator assms(1)] assms(2,3) by blast

theorem delegateStake_no_validator_witness:
  "Call Connection_getVoteAccounts (Inr (R_VoteAccounts \<lparr>current = [], delinquent = []\<rparr>))
     \<in> set (fst (snd (delegateStake demo_lib_no_validator (Some demo_connection) 0)))
   \<and> fst (delegateStake demo_lib_no_validator (Some demo_connection) 0)
     = Inl (TypeError ''Cannot read properties of undefined (reading votePubkey)'')
   \<and> confirmed_txs (fst (snd (delegateStake demo_lib_no_validator (Some demo_connection) 0)))
     = [demo_create_tx]"
proof -
  define r where "r = delegateStake demo_lib_no_validator (Some demo_connection) 0"
  have run: "delegateStake demo_lib_no_validator (Some demo_connection) 0
      = (fst r, fst (snd r), snd (snd r))"
    by (simp add: r_def)
  have asked: "Call Connection_getVoteAccounts
         (Inr (R_VoteAccounts \<lparr>current = [], delinquent = []\<rparr>)) \<in> set (fst (snd r))"
    unfolding r_def
    by (simp add: stage_defs run_defs demo_defs demo_lib_no_validator_def)
  have created: "confirmed_txs (fst (snd r)) = [demo_create_tx]"
    unfolding r_def
    by (simp add: stage_defs run_defs demo_defs demo_lib_no_validator_def obs)
  from delegateStake_no_validator [OF run asked] have
    "fst r = Inl (TypeError ''Cannot read properties of undefined (reading votePubkey)'')"
    by simp
  with asked created show ?thesis unfolding r_def by (intro conjI)
qed

section \<open>Scanning for delegators\<close>

lemma PublicKey_new_String_length:
  "PublicKey_new (String s) = Inr key \<Longrightarrow> length key = 32"
  by (auto simp: PublicKey_new_def PUBLIC_KEY_LENGTH_def split: sum.splits if_splits)

text \<open>What the two filters of the scan let through.\<close>

lemma scan_filters:
  "list_all (filter_matches d) [dataSize 200, memcmp 124 key] \<longleftrightarrow>
     length d = 200 \<and> take (length key) (drop 124 d) = key"
proof -
  have "length key \<le> 76" if "length d = 200" "take (length key) (drop 124 d) = key"
  proof -
    have "length (take (length key) (drop 124 d)) \<le> 76" using that(1) by simp
    with that(2) show ?thesis by simp
  qed
  then show ?thesis by auto
qed

lemma sample_line:
  "(if length xs \<noteq> 0 then console_log (L (xs ! 0)) else resolve ()) =
     (\<lambda>w. (Inr (), map (\<lambda>a. ConsoleLog (L a)) (take 1 xs), w))"
  by (cases xs) (simp_all add: console_log_def resolve_def)

text \<open>Every run of the scan, written out.\<close>

lemma getDelegatorsByValidator_run:
  "getDelegatorsByValidator lib connection v w =
     (case PublicKey_new v of
        Inl e \<Rightarrow> (Inl e, [], w)
      | Inr key \<Rightarrow>
         (case rpc_programAccounts lib (connection_used connection) STAKE_PROGRAM_ID w of
            (Inl e, w1) \<Rightarrow>
              (Inl e, [Call (Connection_getProgramAccounts STAKE_PROGRAM_ID
                               [dataSize 200, memcmp 124 key]) (Inl e)], w1)
          | (Inr held, w1) \<Rightarrow>
              (let accounts = filter (\<lambda>a. length (data (account a)) = 200
                        \<and> take (length key) (drop 124 (data (account a))) = key) held
               in (Inr (),
                   Call (Connection_getProgramAccounts STAKE_PROGRAM_ID
                           [dataSize 200, memcmp 124 key]) (Inr (R_Accounts accounts))
                   # ConsoleLog (Log_total_delegators key (length accounts))
                   # map (\<lambda>a. ConsoleLog (Log_sample_delegator a)) (take 1 accounts),
                   w1))))"
  unfolding getDelegatorsByValidator_def connection_or_default_resolve andThen_resolve
    STAKE_PROGRAM_ID_decodes conn_getProgramAccounts_def scan_filters sample_line
  by (simp add: andThen_def of_result_def invoke_def console_log_def Let_def
      split: sum.splits prod.splits)

text \<open>
  C5. In every run of \<open>getDelegatorsByValidator\<close>, the account query is made on the stake
  program with the two filters \<open>dataSize 200\<close> and \<open>memcmp\<close> at offset 124 on the bytes of
  the validator's key (32 bytes when the key was given as a string). The accounts the
  query returns are exactly those accounts the node holds for the program whose data is
  200 bytes long and holds the bytes of the key from offset 124 on: an account of another
  length, or with other bytes there, is not among them.
\<close>

theorem getDelegatorsByValidator_matches:
  assumes run: "getDelegatorsByValidator lib connection validatorPublicKey w = (out, t, w')"
    and scan: "Call (Connection_getProgramAccounts programId filters) (Inr (R_Accounts accounts))
                 \<in> set t"
  shows "\<exists>key held. PublicKey_new validatorPublicKey = Inr key
      \<and> programId = STAKE_PROGRAM_ID \<and> filters = [dataSize 200, memcmp 124 key]
      \<and> rpc_programAccounts lib (connection_used connection) STAKE_PROGRAM_ID w = (Inr held, w')
      \<and> accounts = filter (\<lambda>a. length (data (account a)) = 200
            \<and> take (length key) (drop 124 (data (account a))) = key) held
      \<and> (\<forall>a \<in> set accounts. length (data (account a)) = 200
            \<and> take (length key) (drop 124 (data (account a))) = key)
      \<and> (\<forall>s. validatorPublicKey = String s \<longrightarrow> length key = 32)"
  using run scan unfolding getDelegatorsByValidator_run
  by (auto simp: Let_def PublicKey_new_String_length split: sum.splits prod.splits)

theorem getDelegatorsByValidator_matches_witness:
  "Call (Connection_getProgramAccounts STAKE_PROGRAM_ID [dataSize 200, memcmp 124 demo_vote_key])
     (Inr (R_Accounts [demo_account 1 (replicate 124 0 @ demo_vote_key @ replicate 44 0)]))
     \<in> set (fst (snd (getDelegatorsByValidator demo_lib (Some demo_connection)
          (String ''Vote111111111111111111111111111111111111111'') 0)))
   \<and> length (replicate 124 (0 :: byte) @ demo_vote_key @ replicate 44 0) = 200
   \<and> take 32 (drop 124 (replicate 124 0 @ demo_vote_key @ replicate 44 0)) = demo_vote_key
   \<and> length (replicate 124 (0 :: byte) @ demo_vote_key @ replicate 45 0) \<noteq> 200
   \<and> take 32 (drop 124 (replicate 124 0 @ rev demo_vote_key @ replicate 44 0))
       \<noteq> demo_vote_key"
proof -
  define r where "r = getDelegatorsByValidator demo_lib (Some demo_connection)
          (String ''Vote111111111111111111111111111111111111111'') 0"
  have run: "getDelegatorsByValidator demo_lib (Some demo_connection)
          (String ''Vote111111111111111111111111111111111111111'') 0
      = (fst r, fst (snd r), snd (snd r))"
    by (simp add: r_def)
  have scan: "Call (Connection_getProgramAccounts STAKE_PROGRAM_ID
        [dataSize 200, memcmp 124 demo_vote_key])
     (Inr (R_Accounts [demo_account 1 (replicate 124 0 @ demo_vote_key @ replicate 44 0)]))
     \<in> set (fst (snd r))"
    unfolding r_def
    by (simp add: getDelegatorsByValidator_run demo_vote_key_decodes demo_lib_def
        demo_account_def connection_used_def)
       (simp add: demo_vote_key_def)
  have others: "length (replicate 124 (0 :: byte) @ demo_vote_key @ replicate 45 0) \<noteq> 200"
    "take 32 (drop 124 (replicate 124 0 @ rev demo_vote_key @ replicate 44 0))
       \<noteq> demo_vote_key"
    by (simp_all add: demo_vote_key_def)
  from getDelegatorsByValidator_matches [OF run scan]
  have "\<forall>a \<in> set [demo_account 1 (replicate 124 0 @ demo_vote_key @ replicate 44 0)].
          length (data (account a)) = 200
          \<and> take (length demo_vote_key) (drop 124 (data (account a))) = demo_vote_key"
    by (auto simp: demo_vote_key_decodes)
  then have "length (replicate 124 (0 :: byte) @ demo_vote_key @ replicate 44 0) = 200
     \<and> take 32 (drop 124 (replicate 124 0 @ demo_vote_key @ replicate 44 0)) = demo_vote_key"
    by (simp add: demo_account_def)
  with scan others show ?thesis unfolding r_def by (intro conjI) simp_all
qed

text \<open>
  C7. In a run of \<open>getDelegatorsByValidator\<close> whose account query returns no account, the
  function returns normally, and the run consists of the query and of one line on the
  console, the total of 0 delegators: no sample record is written.
\<close>

theorem getDelegatorsByValidator_no_match:
  assumes run: "getDelegatorsByValidator lib connection validatorPublicKey w = (out, t, w')"
    and scan: "Call (Connection_getProgramAccounts programId filters) (Inr (R_Accounts []))
                 \<in> set t"
  shows "out = Inr ()
      \<and> (\<exists>key. PublicKey_new validatorPublicKey = Inr key
           \<and> t = [Call (Connection_getProgramAccounts programId filters) (Inr (R_Accounts [])),
                  ConsoleLog (Log_total_delegators key 0)])"
  using run scan unfolding getDelegatorsByValidator_run
  by (auto simp: Let_def split: sum.splits prod.splits)

theorem getDelegatorsByValidator_no_match_witness:
  "fst (getDelegatorsByValidator demo_lib_no_account (Some demo_connection)
          (PublicKeyData demo_vote_key) 0) = Inr ()
   \<and> console_lines (fst (snd (getDelegatorsByValidator demo_lib_no_account
          (Some demo_connection) (PublicKeyData demo_vote_key) 0)))
     = [Log_total_delegators demo_vote_key 0]"
proof -
  define r where "r = getDelegatorsByValidator demo_lib_no_account (Some demo_connection)
          (PublicKeyData demo_vote_key) 0"
  have run: "getDelegatorsByValidator demo_lib_no_account (Some demo_connection)
          (PublicKeyData demo_vote_key) 0 = (fst r, fst (snd r), snd (snd r))"
    by (simp add: r_def)
  have scan: "Call (Connection_getProgramAccounts STAKE_PROGRAM_ID
        [dataSize 200, memcmp 124 demo_vote_key]) (Inr (R_Accounts [])) \<in> set (fst (snd r))"
    unfolding r_def
    by (simp add: getDelegatorsByValidator_run PublicKey_new_def demo_lib_def
        demo_lib_no_account_def)
  from getDelegatorsByValidator_no_match [OF run scan]
  have "fst r = Inr ()" "console_lines (fst (snd r)) = [Log_total_delegators demo_vote_key 0]"
    by (auto simp: PublicKey_new_def console_lines_def)
  then show ?thesis unfolding r_def by (intro conjI)
qed

text \<open>
  C10. The entry flow of the scan calls \<open>getDelegatorsByValidator\<close> with the connection
  only. On every network and from every world, the scan rejects with the \<open>TypeError\<close> that
  \<open>new PublicKey(undefined)\<close> raises, without any call to the network (the trace of the
  scan is empty and the world is unchanged), and the entry flow catches the error, writes
  it with \<open>console.error\<close> and returns.
\<close>

theorem scan_entry_flow_rejects:
  "getDelegatorsByValidator lib (Some c) Undefined w =
     (Inl (TypeError ''Cannot read properties of undefined (reading _bn)''), [], w)
   \<and> get_delegators_by_validator_main lib w =
     (Inl (TypeError ''Cannot read properties of undefined (reading _bn)''), [], w)
   \<and> get_delegators_by_validator_runMain lib w =
     (Inr (), [ConsoleError None
                 (TypeError ''Cannot read properties of undefined (reading _bn)'')], w)"
  by (simp add: get_delegators_by_validator_runMain_def get_delegators_by_validator_main_def
      getDelegatorsByValidator_run PublicKey_new_def
      tryCatch_def andThen_def of_result_def console_error_def establishConnection_def
      clusterApiUrl_def)

theorem scan_entry_flow_rejects_witness:
  "get_delegators_by_validator_runMain demo_lib 0 =
     (Inr (), [ConsoleError None
                 (TypeError ''Cannot read properties of undefined (reading _bn)'')], 0)"
  using scan_entry_flow_rejects [of demo_lib demo_connection 0] by simp

section \<open>What the stages return\<close>

lemma delegateStake_decompose:
  "delegateStake lib connection =
     andThen (createStakeAccount lib (Some (connection_used connection))) (\<lambda>k.
     andThen (conn_getVoteAccounts lib (connection_used connection)) (\<lambda>validators.
     andThen (case current validators of
                [] \<Rightarrow> reject (TypeError ''Cannot read properties of undefined (reading votePubkey)'')
              | selectedValidator # _ \<Rightarrow>
                  of_result (PublicKey_new (String (votePubkey selectedValidator))))
       (\<lambda>selectedValidatorPublicKey.
     andThen (built (StakeProgram_delegate (publicKey (stakeAccount k)) (publicKey (wallet k))
                selectedValidatorPublicKey)) (\<lambda>delegateTx.
     andThen (send_and_confirm lib (connection_used connection) delegateTx [wallet k])
       (\<lambda>delegateTxId.
     andThen (console_log (Log_delegated selectedValidatorPublicKey delegateTxId)) (\<lambda>_.
     andThen (unawaited (getStakeAccountStatus lib (connection_used connection)
                (publicKey (stakeAccount k)))) (\<lambda>_.
     resolve \<lparr>wallet = wallet k, stakeAccount = stakeAccount k,
              selectedValidatorPublicKey = selectedValidatorPublicKey\<rparr>)))))))"
  by (simp add: delegateStake_def connection_or_default_resolve andThen_resolve Let_def)

lemma delegateStake_tail:
  "post (andThen (conn_getVoteAccounts lib c) (\<lambda>validators.
     andThen (case current validators of
                [] \<Rightarrow> reject (TypeError ''Cannot read properties of undefined (reading votePubkey)'')
              | selectedValidator # _ \<Rightarrow>
                  of_result (PublicKey_new (String (votePubkey selectedValidator))))
       (\<lambda>selectedValidatorPublicKey.
     andThen (built (StakeProgram_delegate (publicKey (stakeAccount k)) (publicKey (wallet k))
                selectedValidatorPublicKey)) (\<lambda>delegateTx.
     andThen (send_and_confirm lib c delegateTx [wallet k])
       (\<lambda>delegateTxId.
     andThen (console_log (Log_delegated selectedValidatorPublicKey delegateTxId)) (\<lambda>_.
     andThen (unawaited (getStakeAccountStatus lib c (publicKey (stakeAccount k)))) (\<lambda>_.
     resolve \<lparr>wallet = wallet k, stakeAccount = stakeAccount k,
              selectedValidatorPublicKey = selectedValidatorPublicKey\<rparr>)))))))
    (\<lambda>out t. \<forall>r. out = Inr r \<longrightarrow>
        wallet r = wallet k \<and> stakeAccount r = stakeAccount k
        \<and> (\<exists>v t2 sel rest. t = Call Connection_getVoteAccounts (Inr (R_VoteAccounts v)) # t2
              \<and> current v = sel # rest
              \<and> PublicKey_new (String (votePubkey sel)) = Inr (selectedValidatorPublicKey r)))"
  apply (simp only: flat)
  apply (intro post_rules)
  apply (auto split: list.splits)
  done

lemma deactivateStake_decompose:
  "deactivateStake lib connection =
     andThen (delegateStake lib (Some (connection_used connection))) (\<lambda>r.
     andThen (built (StakeProgram_deactivate (publicKey (stakeAccount r)) (publicKey (wallet r))))
       (\<lambda>deactivateTx.
     andThen (send_and_confirm lib (connection_used connection) deactivateTx [wallet r])
       (\<lambda>deactivateTxId.
     andThen (console_log (Log_deactivated deactivateTxId)) (\<lambda>_.
     andThen (getStakeAccountStatus lib (connection_used connection)
                (publicKey (stakeAccount r))) (\<lambda>_.
     resolve r)))))"
  by (simp add: deactivateStake_def connection_or_default_resolve andThen_resolve Let_def)

lemma deactivateStake_tail:
  "post (andThen (built (StakeProgram_deactivate (publicKey (stakeAccount r))
                   (publicKey (wallet r))))
       (\<lambda>deactivateTx.
     andThen (send_and_confirm lib c deactivateTx [wallet r])
       (\<lambda>deactivateTxId.
     andThen (console_log (Log_deactivated deactivateTxId)) (\<lambda>_.
     andThen (getStakeAccountStatus lib c (publicKey (stakeAccount r))) (\<lambda>_.
     resolve r)))))
    (\<lambda>out t. \<forall>r'. out = Inr r' \<longrightarrow> r' = r)"
  apply (simp only: flat)
  apply (intro post_rules)
  apply simp_all
  done

text \<open>
  C9. A run of \<open>delegateStake\<close> that returns has run \<open>createStakeAccount\<close> first, from the
  same world, and returns the wallet and the stake account that \<open>createStakeAccount\<close>
  returned, together with the public key decoded from \<open>votePubkey\<close> of the first current
  validator in the answer of \<open>getVoteAccounts\<close>. A run of \<open>deactivateStake\<close> that returns,
  returns the value that its call of \<open>delegateStake\<close> returned, and a run of
  \<open>withdrawStake\<close> that returns, returns the value that its call of \<open>deactivateStake\<close>
  returned.
\<close>

theorem stages_return_predecessor_state:
  "(delegateStake lib connection w = (Inr r, t, w') \<longrightarrow>
      (\<exists>k t1 w1 v t2 sel rest.
          createStakeAccount lib (Some (connection_used connection)) w = (Inr k, t1, w1)
          \<and> wallet r = wallet k \<and> stakeAccount r = stakeAccount k
          \<and> t = t1 @ Call Connection_getVoteAccounts (Inr (R_VoteAccounts v)) # t2
          \<and> current v = sel # rest
          \<and> PublicKey_new (String (votePubkey sel)) = Inr (selectedValidatorPublicKey r)))
   \<and> (deactivateStake lib connection w = (Inr r, t, w') \<longrightarrow>
      (\<exists>t1 w1 t2. delegateStake lib (Some (connection_used connection)) w = (Inr r, t1, w1)
          \<and> t = t1 @ t2))
   \<and> (withdrawStake lib connection w = (Inr r, t, w') \<longrightarrow>
      (\<exists>t1 w1 t2. deactivateStake lib (Some (connection_used connection)) w = (Inr r, t1, w1)
          \<and> t = t1 @ t2))"
proof (intro conjI impI)
  assume "delegateStake lib connection w = (Inr r, t, w')"
  then show "\<exists>k t1 w1 v t2 sel rest.
          createStakeAccount lib (Some (connection_used connection)) w = (Inr k, t1, w1)
          \<and> wallet r = wallet k \<and> stakeAccount r = stakeAccount k
          \<and> t = t1 @ Call Connection_getVoteAccounts (Inr (R_VoteAccounts v)) # t2
          \<and> current v = sel # rest
          \<and> PublicKey_new (String (votePubkey sel)) = Inr (selectedValidatorPublicKey r)"
    unfolding delegateStake_decompose
  proof (cases rule: andThenE)
    case (rejected e)
    then show ?thesis by simp
  next
    case (resolved k t1 w1 t2)
    from postD [OF delegateStake_tail resolved(2)] resolved(1,3) show ?thesis by auto
  qed
next
  assume "deactivateStake lib connection w = (Inr r, t, w')"
  then show "\<exists>t1 w1 t2. delegateStake lib (Some (connection_used connection)) w = (Inr r, t1, w1)
          \<and> t = t1 @ t2"
    unfolding deactivateStake_decompose
  proof (cases rule: andThenE)
    case (rejected e)
    then show ?thesis by simp
  next
    case (resolved a t1 w1 t2)
    from postD [OF deactivateStake_tail resolved(2)] resolved(1,3) show ?thesis by auto
  qed
next
  assume "withdrawStake lib connection w = (Inr r, t, w')"
  then show "\<exists>t1 w1 t2. deactivateStake lib (Some (connection_used connection)) w = (Inr r, t1, w1)
          \<and> t = t1 @ t2"
    unfolding withdrawStake_decompose
  proof (cases rule: andThenE)
    case (rejected e)
    then show ?thesis by simp
  next
    case (resolved a t1 w1 t2)
    from postD [OF withdrawStake_tail resolved(2)] resolved(1,3) show ?thesis by auto
  qed
qed

theorem stages_return_predecessor_state_witness:
  "fst (withdrawStake demo_lib (Some demo_connection) 0)
     = Inr \<lparr>wallet = demo_wallet, stakeAccount = demo_stake_account,
            selectedValidatorPublicKey = demo_vote_key\<rparr>
   \<and> fst (deactivateStake demo_lib (Some demo_connection) 0)
     = Inr \<lparr>wallet = demo_wallet, stakeAccount = demo_stake_account,
            selectedValidatorPublicKey = demo_vote_key\<rparr>
   \<and> fst (delegateStake demo_lib (Some demo_connection) 0)
     = Inr \<lparr>wallet = demo_wallet, stakeAccount = demo_stake_account,
            selectedValidatorPublicKey = demo_vote_key\<rparr>
   \<and> fst (createStakeAccount demo_lib (Some demo_connection) 0)
     = Inr \<lparr>wallet = demo_wallet, stakeAccount = demo_stake_account\<rparr>"
proof -
  let ?r = "\<lparr>wallet = demo_wallet, stakeAccount = demo_stake_account,
            selectedValidatorPublicKey = demo_vote_key\<rparr>"
  define rw where "rw = withdrawStake demo_lib (Some demo_connection) 0"
  have "fst rw = Inr ?r"
    unfolding rw_def by (simp add: stage_defs run_defs demo_defs demo_vote_key_decodes)
  then have w: "withdrawStake demo_lib (Some demo_connection) 0
      = (Inr ?r, fst (snd rw), snd (snd rw))"
    unfolding rw_def by (metis prod.collapse)
  from stages_return_predecessor_state
    [THEN conjunct2, THEN conjunct2, rule_format, OF w]
  obtain t1 w1 where a: "deactivateStake demo_lib (Some demo_connection) 0 = (Inr ?r, t1, w1)"
    by (auto simp: connection_used_def)
  from stages_return_predecessor_state
    [THEN conjunct2, THEN conjunct1, rule_format, OF a]
  obtain t2 w2 where d: "delegateStake demo_lib (Some demo_connection) 0 = (Inr ?r, t2, w2)"
    by (auto simp: connection_used_def)
  from stages_return_predecessor_state [THEN conjunct1, rule_format, OF d]
  obtain k t3 w3 where
    c: "createStakeAccount demo_lib (Some demo_connection) 0 = (Inr k, t3, w3)"
    and k: "wallet ?r = wallet k" "stakeAccount ?r = stakeAccount k"
    by (auto simp: connection_used_def)
  from k have "k = \<lparr>wallet = demo_wallet, stakeAccount = demo_stake_account\<rparr>"
    by (cases k) simp
  with w a d c show ?thesis by simp
qed

end
